theory Spec2Isabelle
  imports Main
begin

section \<open>The registration shim \<open>mycpp/mymodule.cpp\<close>\<close>

text \<open>
  The file defines one function, \<open>extern "C" void mymodule(py::object & res)\<close>. Everything
  it does is an effect on the process around it: it writes to \<open>cout\<close>, asks the Python
  interpreter to import a module, has pybind11 create an extension module inside a
  function-static \<open>module_def\<close>, has the host export a class into that module, and
  assigns the module to the caller's \<open>res\<close>. The model threads a \<open>world\<close> record through
  these steps and logs every call that leaves the function in a trace, in program order.

  The function has no \<open>try\<close>, no \<open>throw\<close> and no early return, so this model has no
  error branch: each call into the host is taken to return, with the effect its name and
  arguments say. A second model, \<open>mymodule_on\<close> below, leaves the host open: its calls may
  write, throw or not come back, and a call that does not come back ends the function at
  that statement.
\<close>

subsection \<open>The world the function acts on\<close>

type_synonym objid = nat

text \<open>A \<open>py::object\<close> is a handle: either null or a reference to an interpreter object.\<close>

type_synonym handle = "objid option"

datatype stream = Stdout | Stderr

text \<open>
  Modelled from the spec: what the host records for an exported class. The template
  \<open>ExportFESpace<T>(m, name, flag)\<close> is the host's and not among the sources, which show
  the C++ type \<open>T\<close>, the Python name and a boolean. That the class is constructible and
  specialises the host's finite element space is section 6: the component "registers a
  named, constructible type with the host's extension mechanism, declaring it as a
  specialization of the host's generic finite element space capability".
\<close>

record py_class =
  py_name :: string
  cpp_type :: string
  base :: string
  constructible :: bool
  flag :: bool

record py_module =
  mod_name :: string
  mod_doc :: string
  classes :: "py_class list"

text \<open>
  The interpreter's objects, as far as the function meets them: a module of the host's,
  whose contents it never looks at, or an extension module created here.
\<close>

datatype pyobj = HostModule string | ExtModule py_module

text \<open>
  The storage \<open>create_extension_module\<close> fills, pybind11's \<open>module_def\<close>: the module's
  name and docstring are what the call passes on.
\<close>

record module_def =
  m_name :: string
  m_doc :: string

datatype event =
    Write stream string
  | Flush stream
  | Import string
  | CreateModule objid string string
  | ExportClass objid string

record world =
  trace :: "event list"
  heap :: "pyobj list"
  sys_modules :: "(string \<times> objid) list"
  static_def :: "module_def option"

text \<open>
  \<open>static_def\<close> is the \<open>static py::module::module_def def\<close> of line 15: it has static
  storage duration, so it is zero-initialised when the program starts (\<open>None\<close>) and keeps
  its contents from one call of \<open>mymodule\<close> to the next.
\<close>

definition world0 :: world where
  "world0 = \<lparr>trace = [], heap = [], sys_modules = [], static_def = None\<rparr>"

definition lookup :: "world \<Rightarrow> handle \<Rightarrow> pyobj option" where
  "lookup w h =
     (case h of
        None \<Rightarrow> None
      | Some i \<Rightarrow> (if i < length (heap w) then Some (heap w ! i) else None))"



subsection \<open>The calls the function makes\<close>

definition emit :: "event list \<Rightarrow> world \<Rightarrow> world" where
  "emit es w = w\<lparr>trace := trace w @ es\<rparr>"

definition newline :: string where
  "newline = [CHR 0x0A]"

text \<open>\<open>cout << s << endl\<close>: the text, a newline, and a flush.\<close>

definition cout_endl :: "string \<Rightarrow> world \<Rightarrow> world" where
  "cout_endl s w = emit [Write Stdout s, Write Stdout newline, Flush Stdout] w"

text \<open>
  \<open>py::module::import(name)\<close> is pybind11's, Python's \<open>import\<close>: the interpreter hands back
  the module it already has under that name, or loads it and enters it in \<open>sys.modules\<close>.
\<close>

definition py_import :: "string \<Rightarrow> world \<Rightarrow> objid \<times> world" where
  "py_import name w =
     (case map_of (sys_modules w) name of
        Some h \<Rightarrow> (h, emit [Import name] w)
      | None \<Rightarrow>
          (let h = length (heap w) in
           (h, emit [Import name]
                 (w\<lparr>heap := heap w @ [HostModule name],
                    sys_modules := sys_modules w @ [(name, h)]\<rparr>))))"

text \<open>
  \<open>py::module::create_extension_module(name, doc, &def)\<close> is pybind11's: it fills the
  \<open>module_def\<close> it is given, here the function-static one, and creates a new module object
  from it.
\<close>

definition create_extension_module :: "string \<Rightarrow> string \<Rightarrow> world \<Rightarrow> objid \<times> world" where
  "create_extension_module name doc w =
     (let h = length (heap w) in
      (h, emit [CreateModule h name doc]
            (w\<lparr>heap := heap w @ [ExtModule \<lparr>mod_name = name, mod_doc = doc, classes = []\<rparr>],
               static_def := Some \<lparr>m_name = name, m_doc = doc\<rparr>\<rparr>)))"

text \<open>
  Modelled from the spec: the class \<open>ExportFESpace<T>(m, name, flag)\<close> registers, with \<open>T\<close>
  passed as the type's name (the template is the host's): by section 6 a named,
  constructible specialisation of the host's finite element space, \<open>FESpace\<close>.
\<close>

definition fespace_class :: "string \<Rightarrow> string \<Rightarrow> bool \<Rightarrow> py_class" where
  "fespace_class T name b =
     \<lparr>py_name = name, cpp_type = T, base = ''FESpace'', constructible = True, flag = b\<rparr>"

text \<open>
  Modelled from the spec: registering a class with a module adds it to the module's
  classes (the host's \<open>ExportFESpace\<close> does it); a module of the host's is left alone.
\<close>

definition add_class :: "py_class \<Rightarrow> pyobj \<Rightarrow> pyobj" where
  "add_class c ob =
     (case ob of
        ExtModule m \<Rightarrow> ExtModule (m\<lparr>classes := classes m @ [c]\<rparr>)
      | HostModule n \<Rightarrow> HostModule n)"

text \<open>
  Modelled from the spec: \<open>ExportFESpace<T>(m, name, flag)\<close>, the host's: the class is
  registered with the module \<open>m\<close> refers to.
\<close>

definition ExportFESpace :: "string \<Rightarrow> objid \<Rightarrow> string \<Rightarrow> bool \<Rightarrow> world \<Rightarrow> world" where
  "ExportFESpace T m name b w =
     emit [ExportClass m name]
       (if m < length (heap w)
        then w\<lparr>heap := (heap w)[m := add_class (fespace_class T name b) (heap w ! m)]\<rparr>
        else w)"

subsection \<open>\<open>mymodule\<close>\<close>

text \<open>
  Lines 10 to 23, statement by statement. The out-parameter \<open>res\<close> comes in as an argument
  and goes out as the first component of the result.
\<close>

definition mymodule :: "handle \<Rightarrow> world \<Rightarrow> handle \<times> world" where
  "mymodule res w =
     (let w1 = cout_endl ''called mymodule'' w;
          (ngs, w2) = py_import ''ngsolve'' w1;
          (m, w3) = create_extension_module '''' '''' w2;
          w4 = ExportFESpace ''MyHighOrderFESpace'' m ''MyHighOrderFESpace'' True w3
      in (Some m, w4))"

text \<open>The class the function exports, and the module it hands back.\<close>

definition the_class :: py_class where
  "the_class = fespace_class ''MyHighOrderFESpace'' ''MyHighOrderFESpace'' True"

definition the_module :: py_module where
  "the_module = \<lparr>mod_name = '''', mod_doc = '''', classes = [the_class]\<rparr>"

text \<open>The handle \<open>create_extension_module\<close> gets: the first free one after the import.\<close>

definition new_handle :: "world \<Rightarrow> objid" where
  "new_handle w =
     (case map_of (sys_modules w) ''ngsolve'' of
        Some h \<Rightarrow> length (heap w)
      | None \<Rightarrow> Suc (length (heap w)))"

text \<open>
  What a caller can see of a registration: the object its \<open>res\<close> refers to afterwards.
\<close>

definition outcome :: "handle \<times> world \<Rightarrow> pyobj option" where
  "outcome c = lookup (snd c) (fst c)"

subsection \<open>\<open>mymodule\<close> over any host\<close>

text \<open>
  The three calls of lines 13, 16 and 19 go into code that is not in this file. Above
  they are given one behaviour each. Here they are left open: a host is any three
  functions on the world. A call that does not come back to \<open>mymodule\<close>, because it throws
  or because it never ends, gives no result (\<open>None\<close>, or \<open>False\<close> for \<open>ExportFESpace\<close>,
  which returns nothing), together with the world it leaves behind.
\<close>

record host =
  h_import :: "string \<Rightarrow> world \<Rightarrow> objid option \<times> world"
  h_create :: "string \<Rightarrow> string \<Rightarrow> world \<Rightarrow> objid option \<times> world"
  h_export :: "string \<Rightarrow> objid \<Rightarrow> string \<Rightarrow> bool \<Rightarrow> world \<Rightarrow> bool \<times> world"

text \<open>
  Lines 10 to 23 once more, over such a host. The function has no handler, so a call
  that does not come back ends it there: \<open>res\<close> keeps what it held, and the result says
  that the function did not return (\<open>False\<close>). Otherwise it runs to line 22 and assigns.
\<close>

definition mymodule_on :: "host \<Rightarrow> handle \<Rightarrow> world \<Rightarrow> bool \<times> handle \<times> world" where
  "mymodule_on h res w =
     (let w1 = cout_endl ''called mymodule'' w in
      case h_import h ''ngsolve'' w1 of
        (None, w2) \<Rightarrow> (False, res, w2)
      | (Some ngs, w2) \<Rightarrow>
          (case h_create h '''' '''' w2 of
             (None, w3) \<Rightarrow> (False, res, w3)
           | (Some m, w3) \<Rightarrow>
               (case h_export h ''MyHighOrderFESpace'' m ''MyHighOrderFESpace'' True w3 of
                  (False, w4) \<Rightarrow> (False, res, w4)
                | (True, w4) \<Rightarrow> (True, Some m, w4))))"

text \<open>The host of the first model: each call as defined above, and each coming back.\<close>

definition std_host :: host where
  "std_host =
     \<lparr>h_import = (\<lambda>name w. case py_import name w of (i, w') \<Rightarrow> (Some i, w')),
      h_create = (\<lambda>name doc w. case create_extension_module name doc w of (i, w') \<Rightarrow> (Some i, w')),
      h_export = (\<lambda>T m name b w. (True, ExportFESpace T m name b w))\<rparr>"




section \<open>The finite element space behind the exported class\<close>

text \<open>
  \<open>mymodule.cpp\<close> includes \<open>myHOElement.cpp\<close> and \<open>myHOFESpace.cpp\<close>, which define the
  element and the space; neither file is among the sources. What follows models the two
  from the specification's contract for them (sections 3, 4.2, 4.3 and 7): the global
  numbering of degrees of freedom (DOFs) and the state machine of the space. Orientation
  data and the values of the shape functions take no part in it.
\<close>

subsection \<open>Mesh, entities and orders\<close>

text \<open>
  Modelled from the spec: the reference cells of section 4.1, "segment, triangle,
  tetrahedron" (the element classes are in the missing \<open>myHOElement.cpp\<close>).
\<close>

datatype cell_kind = Segment | Triangle | Tetrahedron

text \<open>
  Modelled from the spec: section 3, "Mesh Entity: vertex, edge, face, or cell; has a
  stable global index"; the argument is that index (the numbering is in the missing
  \<open>myHOFESpace.cpp\<close>).
\<close>

datatype entity = Vertex nat | Edge nat | Face nat | Cell nat

text \<open>
  Modelled from the spec: the mesh is the host's (section 1, out of scope: "the mesh data
  structure and its topology queries"), and \<open>myHOFESpace.cpp\<close>, which queries it, is
  missing. A cell gives its kind and the global indices of its vertices, edges and faces,
  each list in the cell's local order. A segment has no edges or faces below it, a
  triangle no faces.
\<close>

record cell =
  kind :: cell_kind
  cell_vertices :: "nat list"
  cell_edges :: "nat list"
  cell_faces :: "nat list"

text \<open>
  Modelled from the spec: the host's mesh as the missing \<open>myHOFESpace.cpp\<close> sees it, the
  number of entities of each kind and the cells.
\<close>

record mesh =
  n_vertices :: nat
  n_edges :: nat
  n_faces :: nat
  cells :: "cell list"

text \<open>
  Modelled from the spec: the local entity counts of the three reference cells, which
  the missing \<open>myHOElement.cpp\<close> fixes.
\<close>

fun kind_vertices :: "cell_kind \<Rightarrow> nat" where
  "kind_vertices Segment = 2"
| "kind_vertices Triangle = 3"
| "kind_vertices Tetrahedron = 4"

text \<open>Modelled from the spec: as \<open>kind_vertices\<close>, for the edges below a cell.\<close>

fun kind_edges :: "cell_kind \<Rightarrow> nat" where
  "kind_edges Segment = 0"
| "kind_edges Triangle = 3"
| "kind_edges Tetrahedron = 6"

text \<open>Modelled from the spec: as \<open>kind_vertices\<close>, for the faces below a cell.\<close>

fun kind_faces :: "cell_kind \<Rightarrow> nat" where
  "kind_faces Segment = 0"
| "kind_faces Triangle = 0"
| "kind_faces Tetrahedron = 4"

text \<open>
  Modelled from the spec: what the missing \<open>myHOFESpace.cpp\<close> may assume of a cell the
  host hands it: as many vertices, edges and faces as its kind has, each an entity of the
  mesh.
\<close>

definition wf_cell :: "mesh \<Rightarrow> cell \<Rightarrow> bool" where
  "wf_cell m c \<longleftrightarrow>
     length (cell_vertices c) = kind_vertices (kind c) \<and>
     length (cell_edges c) = kind_edges (kind c) \<and>
     length (cell_faces c) = kind_faces (kind c) \<and>
     list_all (\<lambda>v. v < n_vertices m) (cell_vertices c) \<and>
     list_all (\<lambda>e. e < n_edges m) (cell_edges c) \<and>
     list_all (\<lambda>f. f < n_faces m) (cell_faces c)"

text \<open>
  Modelled from the spec: section 3, "an edge of order p owns (p-1) DOFs" (the counts
  are in the missing \<open>myHOFESpace.cpp\<close>). The subtraction stops at zero: by section 4.2
  a cell of order 0 or 1 has "no edge/face/cell DOFs".
\<close>

definition edge_ndof :: "nat \<Rightarrow> nat" where
  "edge_ndof p = p - 1"

text \<open>
  Modelled from the spec: section 3, "a triangular face of order p owns (p-1)(p-2)/2
  DOFs" (missing \<open>myHOFESpace.cpp\<close>), none at order 0 or 1 as for an edge.
\<close>

definition trig_ndof :: "nat \<Rightarrow> nat" where
  "trig_ndof p = (p - 1) * (p - 2) div 2"

text \<open>
  Modelled from the spec: section 3, "a tetrahedral cell owns interior DOFs determined
  analogously" (missing \<open>myHOFESpace.cpp\<close>), read as the next formula of the same
  family.
\<close>

definition tet_ndof :: "nat \<Rightarrow> nat" where
  "tet_ndof p = (p - 1) * (p - 2) * (p - 3) div 6"

text \<open>
  Modelled from the spec: the interior DOFs of a cell of each kind (missing
  \<open>myHOFESpace.cpp\<close>): a segment counts as an edge, a triangle as a triangular face.
\<close>

fun interior_ndof :: "cell_kind \<Rightarrow> nat \<Rightarrow> nat" where
  "interior_ndof Segment p = edge_ndof p"
| "interior_ndof Triangle p = trig_ndof p"
| "interior_ndof Tetrahedron p = tet_ndof p"

text \<open>
  Modelled from the spec: section 3, "a vertex owns exactly 1 DOF", and the counts above
  for the other entities, under an order assignment that attaches "a non-negative integer
  order ... to each entity" (missing \<open>myHOFESpace.cpp\<close>).
\<close>

fun entity_ndof :: "mesh \<Rightarrow> (entity \<Rightarrow> nat) \<Rightarrow> entity \<Rightarrow> nat" where
  "entity_ndof m ord (Vertex i) = 1"
| "entity_ndof m ord (Edge i) = edge_ndof (ord (Edge i))"
| "entity_ndof m ord (Face i) = trig_ndof (ord (Face i))"
| "entity_ndof m ord (Cell i) =
     (if i < length (cells m) then interior_ndof (kind (cells m ! i)) (ord (Cell i)) else 0)"

text \<open>
  Modelled from the spec: section 4.3, the order in which \<open>Update\<close> numbers the entities,
  "vertices, then edges, then faces, then cells, each block internally ordered by entity
  global index" (missing \<open>myHOFESpace.cpp\<close>).
\<close>

definition entities :: "mesh \<Rightarrow> entity list" where
  "entities m =
     map Vertex [0..<n_vertices m] @ map Edge [0..<n_edges m] @
     map Face [0..<n_faces m] @ map Cell [0..<length (cells m)]"

subsection \<open>Errors\<close>

text \<open>
  Modelled from the spec: the errors of sections 4.2 and 4.3 that the modelled operations
  raise (they are raised in the missing \<open>myHOFESpace.cpp\<close> and \<open>myHOElement.cpp\<close>).
  \<open>NotInMesh\<close> is the model's own: the specification names no error for a query about a
  cell or an entity the mesh does not have, and the model fails there instead of reading
  out of range.
\<close>

datatype error = NotUpdated | UnsupportedOrder | NotInMesh

text \<open>Modelled from the spec: the taxonomy of section 7 (missing \<open>myHOFESpace.cpp\<close>).\<close>

datatype error_class = ConfigurationError | ConsistencyError | StateError | DomainError

text \<open>
  Modelled from the spec: section 7, "StateError (query on a Stale/Uninitialized space)"
  and "ConfigurationError (invalid/negative order, unsupported cell geometry)" (missing
  \<open>myHOFESpace.cpp\<close>).
\<close>

fun class_of :: "error \<Rightarrow> error_class" where
  "class_of NotUpdated = StateError"
| "class_of UnsupportedOrder = ConfigurationError"
| "class_of NotInMesh = ConfigurationError"

subsection \<open>The finite element\<close>

text \<open>
  Modelled from the spec: section 4.2, a finite element is "constructed from (cell
  geometry, per-entity orders, per-entity orientation data)" (the class is in the missing
  \<open>myHOElement.cpp\<close>); the orientation data is left out.
\<close>

record finite_element =
  fe_kind :: cell_kind
  edge_orders :: "nat list"
  face_orders :: "nat list"
  cell_order :: nat

text \<open>
  Modelled from the spec: section 4.2, "requested order exceeds a supported maximum
  -> fails with an UnsupportedOrder error" (missing \<open>myHOElement.cpp\<close>). The maximum
  is not given; it is the parameter \<open>pmax\<close>.
\<close>

definition make_fe ::
  "nat \<Rightarrow> cell_kind \<Rightarrow> nat list \<Rightarrow> nat list \<Rightarrow> nat \<Rightarrow> error + finite_element" where
  "make_fe pmax k eo fo co =
     (if list_ex (\<lambda>p. pmax < p) (eo @ fo @ [co]) then Inl UnsupportedOrder
      else Inr \<lparr>fe_kind = k, edge_orders = eo, face_orders = fo, cell_order = co\<rparr>)"

text \<open>
  Modelled from the spec: section 4.2, \<open>GetNDof\<close> of a finite element is the "total local
  shape functions = sum of per-entity contributions given the cell's entity orders"
  (missing \<open>myHOElement.cpp\<close>).
\<close>

definition fe_GetNDof :: "finite_element \<Rightarrow> nat" where
  "fe_GetNDof fe =
     kind_vertices (fe_kind fe) + sum_list (map edge_ndof (edge_orders fe)) +
     sum_list (map trig_ndof (face_orders fe)) + interior_ndof (fe_kind fe) (cell_order fe)"

subsection \<open>The space\<close>

text \<open>Modelled from the spec: the states of section 4.3 (missing \<open>myHOFESpace.cpp\<close>).\<close>

datatype space_state = Uninitialized | Ready | Stale

text \<open>
  Modelled from the spec: section 3, "the Space is constructed from a mesh reference and
  default/initial order configuration", and what \<open>Update\<close> recomputes: the DOF numbering,
  here one row (entity, first index, count) per entity, and the total (the class is in the
  missing \<open>myHOFESpace.cpp\<close>).
\<close>

record space =
  sp_mesh :: mesh
  sp_orders :: "entity \<Rightarrow> nat"
  p_max :: nat
  state :: space_state
  dof_table :: "(entity \<times> nat \<times> nat) list"
  ndof :: nat

text \<open>
  Modelled from the spec: the constructor of the space (missing \<open>myHOFESpace.cpp\<close>); by
  section 4.3 a space starts \<open>Uninitialized\<close>.
\<close>

definition new_space :: "nat \<Rightarrow> mesh \<Rightarrow> (entity \<Rightarrow> nat) \<Rightarrow> space" where
  "new_space pmax m ord =
     \<lparr>sp_mesh = m, sp_orders = ord, p_max = pmax, state = Uninitialized,
      dof_table = [], ndof = 0\<rparr>"

text \<open>
  Modelled from the spec: section 4.3, \<open>Update\<close> "assigns global DOF index ranges per
  entity in a stable order": each entity gets the next free indices (missing
  \<open>myHOFESpace.cpp\<close>).
\<close>

fun assign :: "nat \<Rightarrow> (entity \<times> nat) list \<Rightarrow> (entity \<times> nat \<times> nat) list" where
  "assign first [] = []"
| "assign first ((e, n) # r) = (e, first, n) # assign (first + n) r"

text \<open>
  Modelled from the spec: \<open>Update\<close> of section 4.3 (missing \<open>myHOFESpace.cpp\<close>). By section
  7 an invalid order is "detected and reported during Update"; otherwise the numbering is
  recomputed and the space is \<open>Ready\<close>. An order is attached to the entity, not to the
  cell that sees it, so two cells cannot disagree about a shared entity and the
  \<open>OrderMismatch\<close> of section 4.3 has no input that raises it. An \<open>Update\<close> that fails
  returns no space: the caller keeps the one it had.
\<close>

definition Update :: "space \<Rightarrow> error + space" where
  "Update sp =
     (let m = sp_mesh sp; ord = sp_orders sp; es = entities m in
      if list_ex (\<lambda>e. p_max sp < ord e) es then Inl UnsupportedOrder
      else
        (let counts = map (\<lambda>e. (e, entity_ndof m ord e)) es in
         Inr (sp\<lparr>state := Ready, dof_table := assign 0 counts,
                 ndof := sum_list (map snd counts)\<rparr>)))"

text \<open>
  Modelled from the spec: section 4.3, "any mesh or order mutation transitions {Ready}
  -> {Stale}" (missing \<open>myHOFESpace.cpp\<close>); a space that was never updated stays
  \<open>Uninitialized\<close>.
\<close>

fun mutated :: "space_state \<Rightarrow> space_state" where
  "mutated Ready = Stale"
| "mutated Stale = Stale"
| "mutated Uninitialized = Uninitialized"

text \<open>Modelled from the spec: an order mutation (missing \<open>myHOFESpace.cpp\<close>).\<close>

definition set_orders :: "(entity \<Rightarrow> nat) \<Rightarrow> space \<Rightarrow> space" where
  "set_orders ord sp = sp\<lparr>sp_orders := ord, state := mutated (state sp)\<rparr>"

text \<open>
  Modelled from the spec: a mesh mutation, such as the "mesh refinement" of section 3
  (missing \<open>myHOFESpace.cpp\<close>).
\<close>

definition set_mesh :: "mesh \<Rightarrow> space \<Rightarrow> space" where
  "set_mesh m sp = sp\<lparr>sp_mesh := m, state := mutated (state sp)\<rparr>"

text \<open>
  Modelled from the spec: section 4.3, \<open>GetNDof\<close> is the "current total number of global
  DOFs, recomputed by Update" (missing \<open>myHOFESpace.cpp\<close>).
\<close>

definition GetNDof :: "space \<Rightarrow> nat" where
  "GetNDof sp = ndof sp"

text \<open>
  Modelled from the spec: the global DOF indices one entity owns, read from the table
  \<open>Update\<close> built (missing \<open>myHOFESpace.cpp\<close>).
\<close>

definition entity_dofs :: "(entity \<times> nat \<times> nat) list \<Rightarrow> entity \<Rightarrow> error + nat list" where
  "entity_dofs tbl e =
     (case map_of tbl e of
        None \<Rightarrow> Inl NotInMesh
      | Some (first, n) \<Rightarrow> Inr [first..<first + n])"

text \<open>
  Modelled from the spec: the entities that contribute to a cell, in the order of the
  local shape functions of section 4.1: vertices, "then edge-interior ... then
  face-interior functions, then cell-interior functions" (missing \<open>myHOFESpace.cpp\<close>).
\<close>

definition cell_entities :: "nat \<Rightarrow> cell \<Rightarrow> entity list" where
  "cell_entities i c =
     map Vertex (cell_vertices c) @ map Edge (cell_edges c) @ map Face (cell_faces c) @ [Cell i]"

text \<open>
  Modelled from the spec: the index lists of the contributing entities put one after the
  other; the first failure is the result (missing \<open>myHOFESpace.cpp\<close>).
\<close>

fun gather :: "(error + nat list) list \<Rightarrow> error + nat list" where
  "gather [] = Inr []"
| "gather (Inl e # r) = Inl e"
| "gather (Inr ds # r) = (case gather r of Inl e \<Rightarrow> Inl e | Inr ds' \<Rightarrow> Inr (ds @ ds'))"

text \<open>
  Modelled from the spec: \<open>GetDofNrs\<close> of section 4.3 (missing \<open>myHOFESpace.cpp\<close>): it
  "returns, in the same order as the corresponding Finite Element's local shape-function
  ordering, the global DOF index owned by each contributing entity", and on a space that
  is not \<open>Ready\<close> it "fails with a NotUpdated error".
\<close>

definition GetDofNrs :: "space \<Rightarrow> nat \<Rightarrow> error + nat list" where
  "GetDofNrs sp i =
     (if state sp \<noteq> Ready then Inl NotUpdated
      else if length (cells (sp_mesh sp)) \<le> i then Inl NotInMesh
      else gather (map (entity_dofs (dof_table sp)) (cell_entities i (cells (sp_mesh sp) ! i))))"

text \<open>
  Modelled from the spec: \<open>GetFE\<close> of section 4.3 (missing \<open>myHOFESpace.cpp\<close>): it "builds
  a Finite Element for the given cell using its current orders", and fails with
  \<open>NotUpdated\<close> on a space that is not \<open>Ready\<close>.
\<close>

definition GetFE :: "space \<Rightarrow> nat \<Rightarrow> error + finite_element" where
  "GetFE sp i =
     (if state sp \<noteq> Ready then Inl NotUpdated
      else if length (cells (sp_mesh sp)) \<le> i then Inl NotInMesh
      else
        (let c = cells (sp_mesh sp) ! i; ord = sp_orders sp in
         make_fe (p_max sp) (kind c) (map (\<lambda>e. ord (Edge e)) (cell_edges c))
           (map (\<lambda>f. ord (Face f)) (cell_faces c)) (ord (Cell i))))"

text \<open>
  Modelled from the spec: the operations that change a space (missing
  \<open>myHOFESpace.cpp\<close>): \<open>Update\<close> and the two mutations.
\<close>

datatype operation = OpUpdate | OpSetOrders "entity \<Rightarrow> nat" | OpSetMesh mesh

text \<open>
  Modelled from the spec: one operation applied to a space (missing \<open>myHOFESpace.cpp\<close>);
  after an \<open>Update\<close> that fails the space is the one before it.
\<close>

fun apply_op :: "space \<Rightarrow> operation \<Rightarrow> space" where
  "apply_op sp OpUpdate = (case Update sp of Inl e \<Rightarrow> sp | Inr sp' \<Rightarrow> sp')"
| "apply_op sp (OpSetOrders ord) = set_orders ord sp"
| "apply_op sp (OpSetMesh m) = set_mesh m sp"

text \<open>
  Modelled from the spec: a history of a space, the operations applied from left to right
  (missing \<open>myHOFESpace.cpp\<close>).
\<close>

definition run :: "space \<Rightarrow> operation list \<Rightarrow> space" where
  "run sp ops = foldl apply_op sp ops"

text \<open>
  Modelled from the spec: section 3, a global DOF is "owned by exactly one mesh entity":
  an entity owns the indices of its row of the table (missing \<open>myHOFESpace.cpp\<close>).
\<close>

definition row_owns :: "(entity \<times> nat \<times> nat) list \<Rightarrow> entity \<Rightarrow> nat \<Rightarrow> bool" where
  "row_owns tbl e d =
     (case map_of tbl e of
        None \<Rightarrow> False
      | Some (first, n) \<Rightarrow> first \<le> d \<and> d < first + n)"

text \<open>
  Modelled from the spec: ownership in a space, by the table its last \<open>Update\<close> built
  (missing \<open>myHOFESpace.cpp\<close>).
\<close>

definition owns :: "space \<Rightarrow> entity \<Rightarrow> nat \<Rightarrow> bool" where
  "owns sp e d = row_owns (dof_table sp) e d"

text \<open>
  Modelled from the spec: the invariant of section 3, "DOF ownership partitions the DOF
  index space - no DOF is shared by two entities" (it is an invariant of the missing
  \<open>myHOFESpace.cpp\<close>): every index below the total has one owner, and nothing else is
  owned.
\<close>

definition partitioned :: "space \<Rightarrow> bool" where
  "partitioned sp \<longleftrightarrow>
     (\<forall>d. d < ndof sp \<longrightarrow> (\<exists>!e. owns sp e d)) \<and> (\<forall>e d. owns sp e d \<longrightarrow> d < ndof sp)"

text \<open>
  Modelled from the spec: the meshes of the scenario of section 8 (the mesh is the
  host's): one triangle with vertices 0, 1, 2 and edges 0, 1, 2.
\<close>

definition unit_triangle :: mesh where
  "unit_triangle =
     \<lparr>n_vertices = 3, n_edges = 3, n_faces = 0,
      cells = [\<lparr>kind = Triangle, cell_vertices = [0, 1, 2], cell_edges = [0, 1, 2],
                cell_faces = []\<rparr>]\<rparr>"

text \<open>
  Modelled from the spec: the second mesh of the scenario of section 8 (the mesh is the
  host's): two triangles with vertices 0, 1, 2 and 1, 2, 3; edge 2, between vertices 1
  and 2, is the shared one.
\<close>

definition two_triangles :: mesh where
  "two_triangles =
     \<lparr>n_vertices = 4, n_edges = 5, n_faces = 0,
      cells = [\<lparr>kind = Triangle, cell_vertices = [0, 1, 2], cell_edges = [0, 1, 2],
                cell_faces = []\<rparr>,
               \<lparr>kind = Triangle, cell_vertices = [1, 2, 3], cell_edges = [2, 3, 4],
                cell_faces = []\<rparr>]\<rparr>"

section \<open>Properties of \<open>mymodule\<close>\<close>

subsection \<open>What one call does\<close>


lemma mymodule_result: "fst (mymodule res w) = Some (new_handle w)"
  by (simp add: mymodule_def new_handle_def py_import_def create_extension_module_def
      cout_endl_def emit_def Let_def split: option.splits)

lemma mymodule_trace:
  "trace (snd (mymodule res w)) =
     trace w @ [Write Stdout ''called mymodule'', Write Stdout newline, Flush Stdout,
                Import ''ngsolve'', CreateModule (new_handle w) '''' '''',
                ExportClass (new_handle w) ''MyHighOrderFESpace'']"
  by (simp add: mymodule_def new_handle_def py_import_def create_extension_module_def
      ExportFESpace_def cout_endl_def emit_def Let_def split: option.splits)

lemma mymodule_static_def:
  "static_def (snd (mymodule res w)) = Some \<lparr>m_name = '''', m_doc = ''''\<rparr>"
  by (simp add: mymodule_def py_import_def create_extension_module_def
      ExportFESpace_def cout_endl_def emit_def Let_def split: option.splits)

lemma mymodule_heap:
  "heap (snd (mymodule res w)) =
     (case map_of (sys_modules w) ''ngsolve'' of
        Some h \<Rightarrow> heap w @ [ExtModule the_module]
      | None \<Rightarrow> heap w @ [HostModule ''ngsolve'', ExtModule the_module])"
  by (simp add: mymodule_def py_import_def create_extension_module_def ExportFESpace_def
      cout_endl_def emit_def add_class_def the_module_def the_class_def Let_def
      nth_append list_update_append split: option.splits)

lemma mymodule_lookup:
  "lookup (snd (mymodule res w)) (fst (mymodule res w)) = Some (ExtModule the_module)"
  by (simp add: mymodule_result lookup_def mymodule_heap new_handle_def nth_append
      split: option.splits)

lemma mymodule_fresh: "lookup w (fst (mymodule res w)) = None"
  by (simp add: mymodule_result lookup_def new_handle_def split: option.splits)

lemma mymodule_keeps:
  "i < length (heap w) \<Longrightarrow> heap (snd (mymodule res w)) ! i = heap w ! i"
  by (simp add: mymodule_heap nth_append split: option.splits)

lemma mymodule_heap_grows: "length (heap w) < length (heap (snd (mymodule res w)))"
  by (simp add: mymodule_heap split: option.splits)

lemma mymodule_new_handle_grows:
  "new_handle w < new_handle (snd (mymodule res w))"
  by (simp add: new_handle_def mymodule_heap mymodule_def py_import_def
      create_extension_module_def ExportFESpace_def cout_endl_def emit_def Let_def
      split: option.splits)

lemma mymodule_sys_modules:
  "map_of (sys_modules (snd (mymodule res w))) ''ngsolve'' \<noteq> None"
  by (simp add: mymodule_def py_import_def create_extension_module_def ExportFESpace_def
      cout_endl_def emit_def Let_def map_add_def split: option.splits)

lemma mymodule_ignores_res: "mymodule res w = mymodule res' w"
  by (simp add: mymodule_def)

lemma lookup_kept:
  "lookup w h = Some ob \<Longrightarrow> lookup (snd (mymodule res w)) h = Some ob"
  by (auto simp: lookup_def mymodule_keeps split: option.splits if_splits
      dest: less_trans [OF _ mymodule_heap_grows])

subsection \<open>The function over any host\<close>


text \<open>With the host of the first model, the two models of the function agree.\<close>

lemma mymodule_on_std: "mymodule_on std_host res w = (True, mymodule res w)"
  by (simp add: mymodule_on_def std_host_def mymodule_def Let_def split: prod.splits)




text \<open>
  A call that does not come back leaves \<open>res\<close> as it was, and the line is on standard
  output all the same: here the import throws, and writes nothing.
\<close>

lemma mymodule_on_import_throws:
  "h_import h = (\<lambda>name v. (None, v)) \<Longrightarrow>
   mymodule_on h res w = (False, res, cout_endl ''called mymodule'' w)"
  by (simp add: mymodule_on_def Let_def)




subsection \<open>The claims about \<open>mymodule\<close>\<close>

text \<open>
  C1. The registration entry point registers a named, constructible type with the host's
  extension mechanism, as a specialisation of the host's finite element space: whatever
  \<open>res\<close> and the world were, after the call \<open>res\<close> refers to an extension module that
  holds a class with the Python name \<open>MyHighOrderFESpace\<close>, for the C++ type
  \<open>MyHighOrderFESpace\<close>, constructible, with the host's \<open>FESpace\<close> as its base.
\<close>

theorem mymodule_exports_fespace:
  "\<exists>m. lookup (snd (mymodule res w)) (fst (mymodule res w)) = Some (ExtModule m) \<and>
       \<lparr>py_name = ''MyHighOrderFESpace'', cpp_type = ''MyHighOrderFESpace'',
        base = ''FESpace'', constructible = True, flag = True\<rparr> \<in> set (classes m)"
proof -
  have "the_class \<in> set (classes the_module)"
    by (simp add: the_module_def)
  then show ?thesis
    unfolding the_class_def fespace_class_def
    using mymodule_lookup [of res w] by blast
qed

theorem mymodule_exports_fespace_witness:
  "\<exists>m. lookup (snd (mymodule None world0)) (fst (mymodule None world0)) = Some (ExtModule m) \<and>
       \<lparr>py_name = ''MyHighOrderFESpace'', cpp_type = ''MyHighOrderFESpace'',
        base = ''FESpace'', constructible = True, flag = True\<rparr> \<in> set (classes m)"
  using mymodule_exports_fespace [of None world0] .

text \<open>
  C2, as stated: the second of two successive calls has the same outcome as the first, and
  the component keeps nothing in static storage between calls. The second half fails on
  the first call already: the function-static \<open>def\<close> is filled and stays filled.
\<close>

theorem mymodule_stateless_counterexample:
  "\<not> (outcome (mymodule (fst (mymodule None world0)) (snd (mymodule None world0)))
        = outcome (mymodule None world0)
      \<and> static_def (snd (mymodule None world0)) = None)"
  by (simp add: mymodule_static_def)

text \<open>
  C2, amended. For every pair of successive calls that both return, the module handed
  back by the second call has the same name, docstring and classes as the one handed back
  by the first; it is another object, and the first one is still there unchanged. The
  component does keep state between the calls: the function-static \<open>def\<close>, which every
  call fills with the same empty name and docstring.
\<close>

theorem mymodule_repeatable:
  "(let c1 = mymodule res w; c2 = mymodule (fst c1) (snd c1) in
      outcome c2 = outcome c1 \<and> outcome c1 = Some (ExtModule the_module) \<and>
      fst c2 \<noteq> fst c1 \<and> lookup (snd c2) (fst c1) = outcome c1 \<and>
      static_def (snd c1) = Some \<lparr>m_name = '''', m_doc = ''''\<rparr> \<and>
      static_def (snd c2) = static_def (snd c1))"
proof -
  define c1 where "c1 = mymodule res w"
  define c2 where "c2 = mymodule (fst c1) (snd c1)"
  have o1: "outcome c1 = Some (ExtModule the_module)"
    by (simp add: outcome_def c1_def mymodule_lookup)
  have o2: "outcome c2 = Some (ExtModule the_module)"
    by (simp add: outcome_def c2_def mymodule_lookup)
  have "new_handle w < new_handle (snd c1)"
    by (simp add: c1_def mymodule_new_handle_grows)
  then have ne: "fst c2 \<noteq> fst c1"
    by (simp add: c1_def c2_def mymodule_result)
  have kept: "lookup (snd c2) (fst c1) = outcome c1"
    using o1 lookup_kept [of "snd c1" "fst c1" "ExtModule the_module" "fst c1"]
    by (simp add: outcome_def c2_def)
  have s1: "static_def (snd c1) = Some \<lparr>m_name = '''', m_doc = ''''\<rparr>"
    by (simp add: c1_def mymodule_static_def)
  have s2: "static_def (snd c2) = Some \<lparr>m_name = '''', m_doc = ''''\<rparr>"
    by (simp add: c2_def mymodule_static_def)
  from o1 o2 ne kept s1 s2 show ?thesis
    by (simp add: c1_def c2_def Let_def)
qed

theorem mymodule_repeatable_witness:
  "outcome (mymodule (fst (mymodule None world0)) (snd (mymodule None world0)))
     = outcome (mymodule None world0) \<and>
   fst (mymodule (fst (mymodule None world0)) (snd (mymodule None world0))) = Some 2 \<and>
   fst (mymodule None world0) = Some 1 \<and>
   static_def (snd (mymodule None world0)) = Some \<lparr>m_name = '''', m_doc = ''''\<rparr>"
proof -
  have r1: "fst (mymodule None world0) = Some 1"
    by (simp add: mymodule_result new_handle_def world0_def)
  have "map_of (sys_modules (snd (mymodule None world0))) ''ngsolve'' \<noteq> None"
    by (rule mymodule_sys_modules)
  moreover have "length (heap (snd (mymodule None world0))) = 2"
    by (simp add: mymodule_heap world0_def)
  ultimately have r2:
    "fst (mymodule (fst (mymodule None world0)) (snd (mymodule None world0))) = Some 2"
    by (auto simp: mymodule_result new_handle_def)
  show ?thesis
    using mymodule_repeatable [of None world0] r1 r2 by (simp add: Let_def)
qed




text \<open>
  C10. Every call, whatever \<open>res\<close> held, first prints the line \<open>called mymodule\<close> to
  standard output, then imports the host's module \<open>ngsolve\<close>, then creates an extension
  module and exports the class into it, and leaves \<open>res\<close> referring to that module: an
  object that did not exist before the call, with empty name and docstring and exactly one
  class, \<open>MyHighOrderFESpace\<close>.
\<close>

theorem mymodule_spec:
  "mymodule res w = mymodule None w \<and>
   trace (snd (mymodule res w)) =
     trace w @ [Write Stdout ''called mymodule'', Write Stdout newline, Flush Stdout,
                Import ''ngsolve'', CreateModule (new_handle w) '''' '''',
                ExportClass (new_handle w) ''MyHighOrderFESpace''] \<and>
   map_of (sys_modules (snd (mymodule res w))) ''ngsolve'' \<noteq> None \<and>
   fst (mymodule res w) = Some (new_handle w) \<and>
   lookup w (Some (new_handle w)) = None \<and>
   lookup (snd (mymodule res w)) (Some (new_handle w)) =
     Some (ExtModule \<lparr>mod_name = '''', mod_doc = '''',
       classes = [fespace_class ''MyHighOrderFESpace'' ''MyHighOrderFESpace'' True]\<rparr>)"
proof -
  have "lookup w (Some (new_handle w)) = None"
    using mymodule_fresh [of w res] by (simp add: mymodule_result)
  moreover have "lookup (snd (mymodule res w)) (Some (new_handle w)) =
      Some (ExtModule the_module)"
    using mymodule_lookup [of res w] by (simp add: mymodule_result)
  ultimately show ?thesis
    using mymodule_ignores_res [of res w None] mymodule_sys_modules [of res w]
    by (simp add: mymodule_trace mymodule_result the_module_def the_class_def)
qed

theorem mymodule_spec_witness:
  "mymodule (Some 7) world0 = mymodule None world0 \<and>
   trace (snd (mymodule (Some 7) world0)) =
     [Write Stdout ''called mymodule'', Write Stdout newline, Flush Stdout,
      Import ''ngsolve'', CreateModule 1 '''' '''', ExportClass 1 ''MyHighOrderFESpace''] \<and>
   fst (mymodule (Some 7) world0) = Some 1"
proof -
  have nh: "new_handle world0 = 1"
    by (simp add: new_handle_def world0_def)
  have tr: "trace world0 = []"
    by (simp add: world0_def)
  show ?thesis
    using mymodule_spec [of "Some 7" world0] unfolding nh tr append_Nil by blast
qed

section \<open>Properties of the space\<close>

subsection \<open>The numbering and the state machine\<close>

lemma assign_keys: "map fst (assign s xs) = map fst xs"
  by (induction s xs rule: assign.induct) simp_all

lemma assign_bounds:
  "(e, f, n) \<in> set (assign s xs) \<Longrightarrow> s \<le> f \<and> f + n \<le> s + sum_list (map snd xs)"
  by (induction s xs rule: assign.induct) fastforce+

lemma assign_map_of_bounds:
  "map_of (assign s xs) e = Some (f, n) \<Longrightarrow> s \<le> f \<and> f + n \<le> s + sum_list (map snd xs)"
  by (rule assign_bounds) (erule map_of_SomeD)

lemma assign_map_of_None:
  "e \<notin> fst ` set xs \<Longrightarrow> map_of (assign s xs) e = None"
  using assign_keys [of s xs] by (metis map_of_eq_None_iff set_map)

lemma assign_map_of_Some:
  "e \<in> fst ` set xs \<Longrightarrow> \<exists>f n. map_of (assign s xs) e = Some (f, n)"
  using assign_keys [of s xs]
  by (metis map_of_eq_None_iff set_map not_Some_eq surj_pair)

lemma row_owns_bounds:
  "row_owns (assign s xs) e d \<Longrightarrow> s \<le> d \<and> d < s + sum_list (map snd xs)"
  using assign_map_of_bounds [of s xs e]
  by (fastforce simp: row_owns_def split: option.splits)

lemma assign_cover:
  "distinct (map fst xs) \<Longrightarrow> s \<le> d \<Longrightarrow> d < s + sum_list (map snd xs) \<Longrightarrow>
   \<exists>!e. row_owns (assign s xs) e d"
proof (induction s xs rule: assign.induct)
  case (1 first)
  then show ?case by simp
next
  case (2 first e n r)
  have fresh: "e \<notin> fst ` set r" and dist: "distinct (map fst r)"
    using "2.prems"(1) by auto
  have here: "row_owns (assign first ((e, n) # r)) e d \<longleftrightarrow> d < first + n"
    using "2.prems"(2) by (simp add: row_owns_def)
  have other: "row_owns (assign first ((e, n) # r)) e' d \<longleftrightarrow> row_owns (assign (first + n) r) e' d"
    if "e' \<noteq> e" for e'
    using that by (simp add: row_owns_def)
  have not_e: "\<not> row_owns (assign (first + n) r) e d'" for d'
    using assign_map_of_None [OF fresh] by (simp add: row_owns_def)
  show ?case
  proof (cases "d < first + n")
    case True
    have "\<not> row_owns (assign (first + n) r) e' d" for e'
      using row_owns_bounds [of "first + n" r e' d] True by auto
    with True here other show ?thesis by (intro ex1I [of _ e]) auto
  next
    case False
    with "2.prems" have "\<exists>!e'. row_owns (assign (first + n) r) e' d"
      by (intro "2.IH" dist) auto
    then obtain e' where e': "row_owns (assign (first + n) r) e' d"
      and uniq: "\<And>x. row_owns (assign (first + n) r) x d \<Longrightarrow> x = e'"
      by blast
    from e' not_e have ne: "e' \<noteq> e" by blast
    show ?thesis
    proof (intro ex1I [of _ e'])
      show "row_owns (assign first ((e, n) # r)) e' d"
        using other [OF ne] e' by simp
    next
      fix x assume x: "row_owns (assign first ((e, n) # r)) x d"
      have "x \<noteq> e" using x here False by auto
      with x other show "x = e'" using uniq by blast
    qed
  qed
qed

lemma distinct_entities: "distinct (entities m)"
  by (auto simp: entities_def distinct_map inj_on_def)

lemma set_entities:
  "set (entities m) =
     Vertex ` {..<n_vertices m} \<union> Edge ` {..<n_edges m} \<union> Face ` {..<n_faces m} \<union>
     Cell ` {..<length (cells m)}"
  by (auto simp: entities_def)

lemma owns_row: "owns sp e d = row_owns (dof_table sp) e d"
  by (simp add: owns_def)

lemma Update_result:
  "Update sp = Inr sp' \<Longrightarrow>
     sp' = sp\<lparr>state := Ready,
       dof_table := assign 0 (map (\<lambda>e. (e, entity_ndof (sp_mesh sp) (sp_orders sp) e)) (entities (sp_mesh sp))),
       ndof := sum_list (map (\<lambda>e. entity_ndof (sp_mesh sp) (sp_orders sp) e) (entities (sp_mesh sp)))\<rparr> \<and>
     \<not> list_ex (\<lambda>e. p_max sp < sp_orders sp e) (entities (sp_mesh sp))"
  by (auto simp: Update_def Let_def comp_def split: if_splits)

lemma Update_partitioned: "Update sp = Inr sp' \<Longrightarrow> partitioned sp'"
proof -
  assume u: "Update sp = Inr sp'"
  let ?xs = "map (\<lambda>e. (e, entity_ndof (sp_mesh sp) (sp_orders sp) e)) (entities (sp_mesh sp))"
  have tbl: "dof_table sp' = assign 0 ?xs" and n: "ndof sp' = sum_list (map snd ?xs)"
    using Update_result [OF u] by (simp_all add: comp_def)
  have d: "distinct (map fst ?xs)"
    by (simp add: comp_def distinct_entities)
  show ?thesis
    unfolding partitioned_def owns_row tbl n
    using assign_cover [OF d, of 0] row_owns_bounds [of 0 ?xs] by auto
qed

lemma set_orders_partitioned: "partitioned sp \<Longrightarrow> partitioned (set_orders ord sp)"
  by (simp add: partitioned_def set_orders_def owns_def)

lemma set_mesh_partitioned: "partitioned sp \<Longrightarrow> partitioned (set_mesh m sp)"
  by (simp add: partitioned_def set_mesh_def owns_def)

lemma apply_op_partitioned: "partitioned sp \<Longrightarrow> partitioned (apply_op sp op)"
  by (cases op) (auto simp: Update_partitioned set_orders_partitioned set_mesh_partitioned
      split: sum.splits)

lemma run_partitioned: "partitioned sp \<Longrightarrow> partitioned (run sp ops)"
  unfolding run_def by (induction ops arbitrary: sp) (simp_all add: apply_op_partitioned)

lemma new_space_partitioned: "partitioned (new_space pmax m ord)"
  by (simp add: partitioned_def new_space_def owns_def row_owns_def)

lemma gather_member:
  "gather xs = Inr ds \<Longrightarrow> d \<in> set ds \<Longrightarrow> \<exists>ds'. Inr ds' \<in> set xs \<and> d \<in> set ds'"
proof (induction xs arbitrary: ds rule: gather.induct)
  case 1
  then show ?case by simp
next
  case (2 e r)
  then show ?case by simp
next
  case (3 ds0 r)
  from "3.prems"(1) obtain ds1 where r: "gather r = Inr ds1" and ds: "ds = ds0 @ ds1"
    by (auto split: sum.splits)
  from "3.prems"(2) ds consider "d \<in> set ds0" | "d \<in> set ds1" by auto
  then show ?case
  proof cases
    case 1
    then show ?thesis by auto
  next
    case 2
    from "3.IH" [OF r 2] show ?thesis by auto
  qed
qed

lemma gather_total:
  "(\<And>x. x \<in> set xs \<Longrightarrow> \<exists>ds. x = Inr ds) \<Longrightarrow> \<exists>ds. gather xs = Inr ds"
  by (induction xs rule: gather.induct) (auto split: sum.splits)

lemma GetDofNrs_owned:
  "GetDofNrs sp c = Inr ds \<Longrightarrow> d \<in> set ds \<Longrightarrow> \<exists>e. owns sp e d"
proof -
  assume g: "GetDofNrs sp c = Inr ds" and d: "d \<in> set ds"
  from g have "gather (map (entity_dofs (dof_table sp))
      (cell_entities c (cells (sp_mesh sp) ! c))) = Inr ds"
    by (simp add: GetDofNrs_def split: if_splits)
  from gather_member [OF this d] obtain e ds' where
    "entity_dofs (dof_table sp) e = Inr ds'" "d \<in> set ds'"
    by force
  then have "owns sp e d"
    by (auto simp: entity_dofs_def owns_def row_owns_def split: option.splits)
  then show ?thesis ..
qed

lemma mutated_not_Ready: "mutated s \<noteq> Ready"
  by (cases s) simp_all

lemma run_snoc: "run sp (ops @ [op]) = apply_op (run sp ops) op"
  by (simp add: run_def)

lemma apply_mutation_not_Ready: "op \<noteq> OpUpdate \<Longrightarrow> state (apply_op sp op) \<noteq> Ready"
  by (cases op) (simp_all add: set_orders_def set_mesh_def mutated_not_Ready)

lemma run_last_mutation:
  "ops \<noteq> [] \<Longrightarrow> last ops \<noteq> OpUpdate \<Longrightarrow> state (run sp ops) \<noteq> Ready"
proof -
  assume "ops \<noteq> []" and l: "last ops \<noteq> OpUpdate"
  then have "ops = butlast ops @ [last ops]" by simp
  then have "run sp ops = apply_op (run sp (butlast ops)) (last ops)"
    using run_snoc by metis
  with l show ?thesis by (simp add: apply_mutation_not_Ready)
qed

lemma run_no_Update:
  "OpUpdate \<notin> set ops \<Longrightarrow> state sp = Uninitialized \<Longrightarrow> state (run sp ops) = Uninitialized"
proof (induction ops arbitrary: sp)
  case Nil
  then show ?case by (simp add: run_def)
next
  case (Cons op ops)
  from Cons.prems have "state (apply_op sp op) = Uninitialized"
    by (cases op) (simp_all add: set_orders_def set_mesh_def)
  with Cons show ?case by (simp add: run_def)
qed

lemma not_Ready_queries:
  "state sp \<noteq> Ready \<Longrightarrow> GetDofNrs sp c = Inl NotUpdated \<and> GetFE sp c = Inl NotUpdated"
  by (simp add: GetDofNrs_def GetFE_def)

lemma Update_Ready: "Update sp = Inr sp' \<Longrightarrow> state sp' = Ready"
  by (auto simp: Update_def Let_def split: if_splits)

lemma cell_entities_in_mesh:
  "c < length (cells m) \<Longrightarrow> wf_cell m (cells m ! c) \<Longrightarrow>
   set (cell_entities c (cells m ! c)) \<subseteq> set (entities m)"
  by (auto simp: cell_entities_def wf_cell_def set_entities list_all_iff)

lemma Update_GetDofNrs:
  assumes u: "Update sp = Inr sp'"
    and c: "c < length (cells (sp_mesh sp'))" "wf_cell (sp_mesh sp') (cells (sp_mesh sp') ! c)"
  shows "\<exists>ds. GetDofNrs sp' c = Inr ds"
proof -
  let ?m = "sp_mesh sp"
  let ?xs = "map (\<lambda>e. (e, entity_ndof ?m (sp_orders sp) e)) (entities ?m)"
  have m: "sp_mesh sp' = ?m" and tbl: "dof_table sp' = assign 0 ?xs"
    using Update_result [OF u] by simp_all
  let ?ys = "map (entity_dofs (dof_table sp')) (cell_entities c (cells ?m ! c))"
  have all: "\<exists>ds. x = Inr ds" if "x \<in> set ?ys" for x
  proof -
    from that obtain e where e: "e \<in> set (cell_entities c (cells ?m ! c))"
      and x: "x = entity_dofs (dof_table sp') e"
      by auto
    from e c have "e \<in> fst ` set ?xs"
      using cell_entities_in_mesh [of c ?m] by (force simp: m)
    from assign_map_of_Some [OF this, of 0] show ?thesis
      by (auto simp: x tbl entity_dofs_def)
  qed
  have "\<exists>ds. gather ?ys = Inr ds"
    by (rule gather_total) (rule all)
  then show ?thesis
    using c Update_Ready [OF u] by (simp add: GetDofNrs_def m)
qed

lemma Update_GetFE:
  assumes u: "Update sp = Inr sp'"
    and c: "c < length (cells (sp_mesh sp'))" "wf_cell (sp_mesh sp') (cells (sp_mesh sp') ! c)"
  shows "\<exists>fe. GetFE sp' c = Inr fe"
proof -
  let ?m = "sp_mesh sp"
  have m: "sp_mesh sp' = ?m" and o: "sp_orders sp' = sp_orders sp" and p: "p_max sp' = p_max sp"
    using Update_result [OF u] by simp_all
  have ok: "\<not> p_max sp < sp_orders sp e" if "e \<in> set (entities ?m)" for e
    using Update_result [OF u] that by (auto simp: list_ex_iff)
  have sub: "set (cell_entities c (cells ?m ! c)) \<subseteq> set (entities ?m)"
    using c cell_entities_in_mesh [of c ?m] by (simp add: m)
  have "\<not> p_max sp < sp_orders sp e" if "e \<in> set (cell_entities c (cells ?m ! c))" for e
    using ok sub that by blast
  then have "\<not> list_ex (\<lambda>q. p_max sp < q)
      (map (\<lambda>e. sp_orders sp (Edge e)) (cell_edges (cells ?m ! c)) @
       map (\<lambda>f. sp_orders sp (Face f)) (cell_faces (cells ?m ! c)) @ [sp_orders sp (Cell c)])"
    by (auto simp: list_ex_iff cell_entities_def)
  then show ?thesis
    using c Update_Ready [OF u] by (simp add: GetFE_def make_fe_def m o p Let_def)
qed

lemma unit_triangle_Update:
  "2 \<le> pmax \<Longrightarrow>
   Update (new_space pmax unit_triangle (\<lambda>_. 2)) =
     Inr \<lparr>sp_mesh = unit_triangle, sp_orders = (\<lambda>_. 2), p_max = pmax, state = Ready,
          dof_table = [(Vertex 0, 0, 1), (Vertex 1, 1, 1), (Vertex 2, 2, 1),
                       (Edge 0, 3, 1), (Edge 1, 4, 1), (Edge 2, 5, 1), (Cell 0, 6, 0)],
          ndof = 6\<rparr>"
  by (simp add: Update_def new_space_def unit_triangle_def entities_def Let_def
      edge_ndof_def trig_ndof_def eval_nat_numeral)

lemma two_triangles_Update:
  "2 \<le> pmax \<Longrightarrow>
   Update (new_space pmax two_triangles (\<lambda>_. 2)) =
     Inr \<lparr>sp_mesh = two_triangles, sp_orders = (\<lambda>_. 2), p_max = pmax, state = Ready,
          dof_table = [(Vertex 0, 0, 1), (Vertex 1, 1, 1), (Vertex 2, 2, 1), (Vertex 3, 3, 1),
                       (Edge 0, 4, 1), (Edge 1, 5, 1), (Edge 2, 6, 1), (Edge 3, 7, 1),
                       (Edge 4, 8, 1), (Cell 0, 9, 0), (Cell 1, 9, 0)],
          ndof = 9\<rparr>"
  by (simp add: Update_def new_space_def two_triangles_def entities_def Let_def
      edge_ndof_def trig_ndof_def eval_nat_numeral)

lemma run_Update:
  "Update sp = Inr sp' \<Longrightarrow> run sp [OpUpdate] = sp'"
  by (simp add: run_def)

lemma Update_succeeds:
  "\<not> list_ex (\<lambda>e. p_max sp < sp_orders sp e) (entities (sp_mesh sp)) \<Longrightarrow>
   \<exists>sp'. Update sp = Inr sp'"
  by (simp add: Update_def Let_def)

lemma stale_triangle:
  "run (new_space 2 unit_triangle (\<lambda>_. 2)) [OpUpdate, OpSetOrders (\<lambda>_. 1)] =
     \<lparr>sp_mesh = unit_triangle, sp_orders = (\<lambda>_. 1), p_max = 2, state = Stale,
      dof_table = [(Vertex 0, 0, 1), (Vertex 1, 1, 1), (Vertex 2, 2, 1),
                   (Edge 0, 3, 1), (Edge 1, 4, 1), (Edge 2, 5, 1), (Cell 0, 6, 0)],
      ndof = 6\<rparr>"
  by (simp add: run_def unit_triangle_Update set_orders_def)

subsection \<open>The claims about the space\<close>

text \<open>
  C4. A query on a space that was never updated, or whose last operation was a mesh or
  order mutation, fails: \<open>GetDofNrs\<close> and \<open>GetFE\<close> return \<open>NotUpdated\<close>, a \<open>StateError\<close>.
  An \<open>Update\<close> that returns leaves the space \<open>Ready\<close>, whatever its state was, and both
  queries then succeed for every cell of the mesh. The space is any one reached from a
  new space by a history \<open>ops\<close> of updates and mutations.
\<close>

theorem space_state_machine:
  "(let sp = run (new_space pmax m ord) ops in
      ((OpUpdate \<notin> set ops \<or> (ops \<noteq> [] \<and> last ops \<noteq> OpUpdate)) \<longrightarrow>
         GetDofNrs sp c = Inl NotUpdated \<and> GetFE sp c = Inl NotUpdated \<and>
         class_of NotUpdated = StateError) \<and>
      (\<forall>sp'. Update sp = Inr sp' \<longrightarrow>
         state sp' = Ready \<and>
         (c < length (cells (sp_mesh sp')) \<and> wf_cell (sp_mesh sp') (cells (sp_mesh sp') ! c) \<longrightarrow>
            (\<exists>ds. GetDofNrs sp' c = Inr ds) \<and> (\<exists>fe. GetFE sp' c = Inr fe))))"
proof -
  define sp where "sp = run (new_space pmax m ord) ops"
  have "state sp \<noteq> Ready" if "OpUpdate \<notin> set ops \<or> (ops \<noteq> [] \<and> last ops \<noteq> OpUpdate)"
    using that
  proof
    assume "OpUpdate \<notin> set ops"
    then have "state sp = Uninitialized"
      unfolding sp_def by (rule run_no_Update) (simp add: new_space_def)
    then show ?thesis by simp
  next
    assume "ops \<noteq> [] \<and> last ops \<noteq> OpUpdate"
    then show ?thesis unfolding sp_def by (simp add: run_last_mutation)
  qed
  then have a: "GetDofNrs sp c = Inl NotUpdated \<and> GetFE sp c = Inl NotUpdated"
    if "OpUpdate \<notin> set ops \<or> (ops \<noteq> [] \<and> last ops \<noteq> OpUpdate)"
    using that not_Ready_queries by blast
  show ?thesis
    unfolding Let_def sp_def [symmetric]
    using a Update_Ready Update_GetDofNrs Update_GetFE by (auto simp del: last.simps)
qed

theorem space_state_machine_witness:
  "GetDofNrs (run (new_space 2 unit_triangle (\<lambda>_. 2)) [OpUpdate, OpSetOrders (\<lambda>_. 1)]) 0
     = Inl NotUpdated \<and>
   GetFE (new_space 2 unit_triangle (\<lambda>_. 2)) 0 = Inl NotUpdated \<and>
   (\<exists>sp ds fe. Update (new_space 2 unit_triangle (\<lambda>_. 2)) = Inr sp \<and> state sp = Ready \<and>
      GetDofNrs sp 0 = Inr ds \<and> GetFE sp 0 = Inr fe) \<and>
   state (run (new_space 2 unit_triangle (\<lambda>_. 2)) [OpUpdate, OpSetOrders (\<lambda>_. 1)]) = Stale \<and>
   (\<exists>sp ds fe.
      Update (run (new_space 2 unit_triangle (\<lambda>_. 2)) [OpUpdate, OpSetOrders (\<lambda>_. 1)]) = Inr sp \<and>
      state sp = Ready \<and> GetDofNrs sp 0 = Inr ds \<and> GetFE sp 0 = Inr fe)"
proof -
  let ?new = "new_space 2 unit_triangle (\<lambda>_. 2)"
  let ?st = "run ?new [OpUpdate, OpSetOrders (\<lambda>_. 1)]"
  have st: "state ?st = Stale" "sp_mesh ?st = unit_triangle"
    unfolding stale_triangle by simp_all
  have "\<exists>sp. Update ?st = Inr sp"
    by (rule Update_succeeds) (simp only: stale_triangle, simp add: list_ex_iff)
  then obtain sp2 where sp2: "Update ?st = Inr sp2" ..
  then have "sp_mesh sp2 = unit_triangle"
    using Update_result [OF sp2] st by simp
  then have "0 < length (cells (sp_mesh sp2)) \<and> wf_cell (sp_mesh sp2) (cells (sp_mesh sp2) ! 0)"
    by (simp add: unit_triangle_def wf_cell_def)
  then have "state sp2 = Ready \<and> (\<exists>ds. GetDofNrs sp2 0 = Inr ds) \<and> (\<exists>fe. GetFE sp2 0 = Inr fe)"
    using space_state_machine [of 2 unit_triangle "\<lambda>_. 2" "[OpUpdate, OpSetOrders (\<lambda>_. 1)]" 0] sp2
    by (simp add: Let_def)
  with sp2 have from_stale: "\<exists>sp ds fe. Update ?st = Inr sp \<and> state sp = Ready \<and>
      GetDofNrs sp 0 = Inr ds \<and> GetFE sp 0 = Inr fe"
    by blast
  have "GetDofNrs (run ?new [OpUpdate, OpSetOrders (\<lambda>_. 1)]) 0 = Inl NotUpdated"
    using space_state_machine [of 2 unit_triangle "\<lambda>_. 2" "[OpUpdate, OpSetOrders (\<lambda>_. 1)]" 0]
    by (simp add: Let_def)
  moreover have "GetFE ?new 0 = Inl NotUpdated"
    using space_state_machine [of 2 unit_triangle "\<lambda>_. 2" "[]" 0]
    by (simp add: Let_def run_def)
  moreover obtain sp where sp: "Update ?new = Inr sp"
    using unit_triangle_Update [of 2] by simp
  moreover have "sp_mesh sp = unit_triangle"
    using sp unit_triangle_Update [of 2] by auto
  then have "0 < length (cells (sp_mesh sp)) \<and> wf_cell (sp_mesh sp) (cells (sp_mesh sp) ! 0)"
    by (simp add: unit_triangle_def wf_cell_def)
  then have "state sp = Ready \<and> (\<exists>ds. GetDofNrs sp 0 = Inr ds) \<and> (\<exists>fe. GetFE sp 0 = Inr fe)"
    using space_state_machine [of 2 unit_triangle "\<lambda>_. 2" "[]" 0] sp
    by (simp add: Let_def run_def)
  ultimately show ?thesis using st(1) from_stale by blast
qed

text \<open>
  C6. On the mesh of one triangle with uniform order 2 the finite element of the cell has
  6 DOFs: 3 of its vertices, 3 of its edges, one each, and none inside. On the mesh of two
  triangles that share an edge the space has 9 global DOFs: the table gives one to each of
  the 4 vertices and one to each of the 5 edges, and both cells list index 6, the DOF of
  the shared edge.
\<close>

theorem triangle_scenario:
  "2 \<le> pmax \<Longrightarrow>
   (\<exists>sp fe. Update (new_space pmax unit_triangle (\<lambda>_. 2)) = Inr sp \<and> GetFE sp 0 = Inr fe \<and>
      kind_vertices (fe_kind fe) = 3 \<and> sum_list (map edge_ndof (edge_orders fe)) = 3 \<and>
      interior_ndof (fe_kind fe) (cell_order fe) = 0 \<and> fe_GetNDof fe = 6) \<and>
   (\<exists>sp. Update (new_space pmax two_triangles (\<lambda>_. 2)) = Inr sp \<and> GetNDof sp = 9 \<and>
      dof_table sp =
        [(Vertex 0, 0, 1), (Vertex 1, 1, 1), (Vertex 2, 2, 1), (Vertex 3, 3, 1),
         (Edge 0, 4, 1), (Edge 1, 5, 1), (Edge 2, 6, 1), (Edge 3, 7, 1), (Edge 4, 8, 1),
         (Cell 0, 9, 0), (Cell 1, 9, 0)] \<and>
      GetDofNrs sp 0 = Inr [0, 1, 2, 4, 5, 6] \<and> GetDofNrs sp 1 = Inr [1, 2, 3, 6, 7, 8])"
proof -
  assume p: "2 \<le> pmax"
  let ?s1 = "\<lparr>sp_mesh = unit_triangle, sp_orders = (\<lambda>_. 2), p_max = pmax, state = Ready,
      dof_table = [(Vertex 0, 0, 1), (Vertex 1, 1, 1), (Vertex 2, 2, 1),
                   (Edge 0, 3, 1), (Edge 1, 4, 1), (Edge 2, 5, 1), (Cell 0, 6, 0)],
      ndof = 6\<rparr>"
  let ?fe = "\<lparr>fe_kind = Triangle, edge_orders = [2, 2, 2], face_orders = [], cell_order = 2\<rparr>"
  have u1: "Update (new_space pmax unit_triangle (\<lambda>_. 2)) = Inr ?s1"
    by (rule unit_triangle_Update [OF p])
  have fe: "GetFE ?s1 0 = Inr ?fe"
    using p by (simp add: GetFE_def make_fe_def unit_triangle_def Let_def)
  have v: "kind_vertices (fe_kind ?fe) = 3"
    by simp
  have e: "sum_list (map edge_ndof (edge_orders ?fe)) = 3"
    by (simp add: edge_ndof_def)
  have i: "interior_ndof (fe_kind ?fe) (cell_order ?fe) = 0"
    by (simp add: trig_ndof_def)
  have n: "fe_GetNDof ?fe = 6"
    by (simp add: fe_GetNDof_def edge_ndof_def trig_ndof_def)
  let ?s2 = "\<lparr>sp_mesh = two_triangles, sp_orders = (\<lambda>_. 2), p_max = pmax, state = Ready,
      dof_table = [(Vertex 0, 0, 1), (Vertex 1, 1, 1), (Vertex 2, 2, 1), (Vertex 3, 3, 1),
                   (Edge 0, 4, 1), (Edge 1, 5, 1), (Edge 2, 6, 1), (Edge 3, 7, 1),
                   (Edge 4, 8, 1), (Cell 0, 9, 0), (Cell 1, 9, 0)],
      ndof = 9\<rparr>"
  have u2: "Update (new_space pmax two_triangles (\<lambda>_. 2)) = Inr ?s2"
    by (rule two_triangles_Update [OF p])
  have g: "GetNDof ?s2 = 9"
    by (simp add: GetNDof_def)
  have t: "dof_table ?s2 =
      [(Vertex 0, 0, 1), (Vertex 1, 1, 1), (Vertex 2, 2, 1), (Vertex 3, 3, 1),
       (Edge 0, 4, 1), (Edge 1, 5, 1), (Edge 2, 6, 1), (Edge 3, 7, 1), (Edge 4, 8, 1),
       (Cell 0, 9, 0), (Cell 1, 9, 0)]"
    by simp
  have d0: "GetDofNrs ?s2 0 = Inr [0, 1, 2, 4, 5, 6]"
    by (simp add: GetDofNrs_def cell_entities_def entity_dofs_def two_triangles_def upt_rec)
  have d1: "GetDofNrs ?s2 1 = Inr [1, 2, 3, 6, 7, 8]"
    by (simp add: GetDofNrs_def cell_entities_def entity_dofs_def two_triangles_def upt_rec)
  from u1 fe v e i n have one:
    "\<exists>sp fe. Update (new_space pmax unit_triangle (\<lambda>_. 2)) = Inr sp \<and> GetFE sp 0 = Inr fe \<and>
      kind_vertices (fe_kind fe) = 3 \<and> sum_list (map edge_ndof (edge_orders fe)) = 3 \<and>
      interior_ndof (fe_kind fe) (cell_order fe) = 0 \<and> fe_GetNDof fe = 6"
    by blast
  from u2 g t d0 d1 have two:
    "\<exists>sp. Update (new_space pmax two_triangles (\<lambda>_. 2)) = Inr sp \<and> GetNDof sp = 9 \<and>
      dof_table sp =
        [(Vertex 0, 0, 1), (Vertex 1, 1, 1), (Vertex 2, 2, 1), (Vertex 3, 3, 1),
         (Edge 0, 4, 1), (Edge 1, 5, 1), (Edge 2, 6, 1), (Edge 3, 7, 1), (Edge 4, 8, 1),
         (Cell 0, 9, 0), (Cell 1, 9, 0)] \<and>
      GetDofNrs sp 0 = Inr [0, 1, 2, 4, 5, 6] \<and> GetDofNrs sp 1 = Inr [1, 2, 3, 6, 7, 8]"
    by blast
  from one two show ?thesis by blast
qed

theorem triangle_scenario_witness:
  "(\<exists>sp fe. Update (new_space 2 unit_triangle (\<lambda>_. 2)) = Inr sp \<and> GetFE sp 0 = Inr fe \<and>
      fe_GetNDof fe = 6) \<and>
   (\<exists>sp. Update (new_space 2 two_triangles (\<lambda>_. 2)) = Inr sp \<and> GetNDof sp = 9)"
proof -
  have "(2::nat) \<le> 2" by simp
  from triangle_scenario [OF this] show ?thesis by blast
qed

text \<open>
  C7. In every space reached from a new one by updates and mutations, so after any
  \<open>Update\<close> and after any operation that follows it, the ownership of DOFs is a
  partition: every index below \<open>GetNDof\<close> is owned by exactly one entity, no entity owns
  an index beyond it, and every index \<open>GetDofNrs\<close> returns is such an index, owned by
  exactly one entity. Each operation that changes a space keeps the partition, from any
  space \<open>sp0\<close> that has it; the queries change nothing.
\<close>

theorem dof_ownership_partition:
  "(let sp = run (new_space pmax m ord) ops in
      (\<forall>d. d < GetNDof sp \<longrightarrow> (\<exists>!e. owns sp e d)) \<and>
      (\<forall>e d. owns sp e d \<longrightarrow> d < GetNDof sp) \<and>
      (\<forall>c ds d. GetDofNrs sp c = Inr ds \<longrightarrow> d \<in> set ds \<longrightarrow>
         d < GetNDof sp \<and> (\<exists>!e. owns sp e d))) \<and>
   (partitioned sp0 \<longrightarrow> partitioned (apply_op sp0 op))"
proof -
  define sp where "sp = run (new_space pmax m ord) ops"
  have part: "partitioned sp"
    unfolding sp_def by (rule run_partitioned) (rule new_space_partitioned)
  have a: "\<exists>!e. owns sp e d" if "d < GetNDof sp" for d
    using part that by (simp add: partitioned_def GetNDof_def)
  have b: "d < GetNDof sp" if "owns sp e d" for e d
    using part that by (auto simp: partitioned_def GetNDof_def)
  have c: "d < GetNDof sp \<and> (\<exists>!e. owns sp e d)"
    if "GetDofNrs sp c = Inr ds" "d \<in> set ds" for c ds d
  proof -
    from GetDofNrs_owned [OF that] obtain e where "owns sp e d" ..
    then have "d < GetNDof sp" by (rule b)
    with a show ?thesis by simp
  qed
  from a b c apply_op_partitioned [of sp0 op] show ?thesis
    unfolding Let_def sp_def [symmetric] by blast
qed

theorem dof_ownership_partition_witness:
  "GetNDof (run (new_space 2 two_triangles (\<lambda>_. 2)) [OpUpdate]) = 9 \<and>
   owns (run (new_space 2 two_triangles (\<lambda>_. 2)) [OpUpdate]) (Edge 2) 6 \<and>
   (\<exists>!e. owns (run (new_space 2 two_triangles (\<lambda>_. 2)) [OpUpdate]) e 6)"
proof -
  let ?sp = "run (new_space 2 two_triangles (\<lambda>_. 2)) [OpUpdate]"
  have sp: "?sp = \<lparr>sp_mesh = two_triangles, sp_orders = (\<lambda>_. 2), p_max = 2, state = Ready,
      dof_table = [(Vertex 0, 0, 1), (Vertex 1, 1, 1), (Vertex 2, 2, 1), (Vertex 3, 3, 1),
                   (Edge 0, 4, 1), (Edge 1, 5, 1), (Edge 2, 6, 1), (Edge 3, 7, 1),
                   (Edge 4, 8, 1), (Cell 0, 9, 0), (Cell 1, 9, 0)],
      ndof = 9\<rparr>"
    by (rule run_Update) (simp add: two_triangles_Update)
  have n: "GetNDof ?sp = 9"
    by (simp only: sp GetNDof_def) simp
  have o: "owns ?sp (Edge 2) 6"
    by (simp only: sp owns_def row_owns_def) simp
  have "(6::nat) < 9" by simp
  with n have "\<exists>!e. owns ?sp e 6"
    using dof_ownership_partition [of 2 two_triangles "\<lambda>_. 2" "[OpUpdate]"]
    by (simp add: Let_def)
  with n o show ?thesis by blast
qed

end
